theory Spec2Isabelle
  imports Complex_Main
begin

section \<open>CircleCalc: the geometry engine and the ASCII rasterizer\<close>

text \<open>
  The development embeds \<^verbatim>\<open>area_calc.py\<close>: \<^verbatim>\<open>calculate_circle_properties\<close>,
  \<^verbatim>\<open>draw_circle_ascii\<close> and the input handling of \<^verbatim>\<open>main\<close>.

  Number model. A Python \<^verbatim>\<open>int\<close> is an \<^typ>\<open>int\<close>. A Python \<^verbatim>\<open>float\<close> is modelled by a
  \<^typ>\<open>real\<close>: \<^verbatim>\<open>math.pi\<close> is \<^term>\<open>pi\<close>, \<^verbatim>\<open>math.sqrt\<close> is \<^term>\<open>sqrt\<close>, and
  \<^verbatim>\<open>+ - * / **\<close> are the exact operations. Rounding to 53 bits, overflow (Python
  raises \<^verbatim>\<open>OverflowError\<close> when \<^verbatim>\<open>x ** 2\<close> leaves the double range, from about
  \<^verbatim>\<open>1.3e154\<close> on), underflow, infinities and NaN are outside this model; every
  statement below is a statement about the exact arithmetic the code describes.

  Console output (\<^verbatim>\<open>print\<close>), \<^verbatim>\<open>display_calculation_steps\<close> and the plotting window
  of \<^verbatim>\<open>visualize_circle\<close> produce no value that the modelled functions return, and
  are left out.
\<close>

subsection \<open>Data model\<close>

text \<open>The exceptions that the source raises itself: \<^verbatim>\<open>ValueError(message)\<close>.\<close>

datatype py_error = ValueError string

text \<open>
  The dictionary returned by \<^verbatim>\<open>calculate_circle_properties\<close> always has the same
  seven keys, so it is a record with one field per key.
\<close>

record CircleProperties =
  radius :: real
  angle_degrees :: real
  diameter :: real
  circumference :: real
  area :: real
  sector_area :: real
  arc_length :: real

subsection \<open>The geometry engine\<close>

text \<open>
  \<^verbatim>\<open>def calculate_circle_properties(radius, angle_degrees=360)\<close>. The optional
  argument is an \<^typ>\<open>real option\<close>: \<^term>\<open>None\<close> is a call that leaves it out, and
  the default \<^verbatim>\<open>360\<close> is then taken. The body has no \<^verbatim>\<open>raise\<close> and no check, so
  every call returns (\<^term>\<open>Inr\<close>) the dictionary.
\<close>

definition calculate_circle_properties ::
    "real \<Rightarrow> real option \<Rightarrow> py_error + CircleProperties" where
  "calculate_circle_properties r angle_arg =
     (let a = (case angle_arg of None \<Rightarrow> 360 | Some v \<Rightarrow> v);
          d = 2 * r;
          c = 2 * pi * r;
          ar = pi * r ^ 2;
          sa = (a / 360) * ar;
          al = (a / 360) * c
      in Inr \<lparr>radius = r, angle_degrees = a, diameter = d, circumference = c,
              area = ar, sector_area = sa, arc_length = al\<rparr>)"

subsection \<open>The ASCII rasterizer\<close>

text \<open>Python's \<^verbatim>\<open>range(a, b)\<close>: the integers from \<open>a\<close> up to \<open>b - 1\<close>, none when \<open>b \<le> a\<close>.\<close>

definition py_range :: "int \<Rightarrow> int \<Rightarrow> int list" where
  "py_range a b = [a..b - 1]"

text \<open>The local constant \<^verbatim>\<open>scale_x = 2\<close>.\<close>

definition scale_x :: int where
  "scale_x = 2"

text \<open>
  \<^verbatim>\<open>distance = sqrt((x/scale_x)**2 + y**2)\<close> and
  \<^verbatim>\<open>is_on_circle = abs(distance - radius) < 0.5\<close>; \<^verbatim>\<open>/\<close> is true division.
\<close>

definition distance :: "int \<Rightarrow> int \<Rightarrow> real" where
  "distance x y = sqrt ((real_of_int x / real_of_int scale_x) ^ 2 + real_of_int (y ^ 2))"

definition is_on_circle :: "int \<Rightarrow> int \<Rightarrow> int \<Rightarrow> bool" where
  "is_on_circle r x y \<longleftrightarrow> \<bar>distance x y - real_of_int r\<bar> < 0.5"

text \<open>
  The inner loop: \<^verbatim>\<open>line = ""\<close>, then for every \<open>x\<close> of
  \<^verbatim>\<open>range(-2 * radius, 2 * radius + 1)\<close> one character is appended to \<^verbatim>\<open>line\<close>.
\<close>

definition draw_line :: "int \<Rightarrow> int \<Rightarrow> string" where
  "draw_line r y =
     foldl (\<lambda>line x. line @ (if is_on_circle r x y then ''*'' else '' ''))
       [] (py_range (- 2 * r) (2 * r + 1))"

text \<open>
  The outer loop: \<^verbatim>\<open>result = []\<close>, then for every \<open>y\<close> of
  \<^verbatim>\<open>range(-radius, radius + 1)\<close> the finished line is appended to \<^verbatim>\<open>result\<close>.
\<close>

definition draw_rows :: "int \<Rightarrow> string list" where
  "draw_rows r = foldl (\<lambda>result y. result @ [draw_line r y]) [] (py_range (- r) (r + 1))"

text \<open>\<^verbatim>\<open>"\n".join(result)\<close>; the newline is the character with code 10.\<close>

fun join_nl :: "string list \<Rightarrow> string" where
  "join_nl [] = []"
| "join_nl [l] = l"
| "join_nl (l # m # ls) = l @ CHR 0x0A # join_nl (m # ls)"

text \<open>
  \<^verbatim>\<open>def draw_circle_ascii(radius, show_calculation=False)\<close>. The flag only turns
  console printing on; the returned string does not depend on it. The body has no
  \<^verbatim>\<open>raise\<close> and no check on \<^verbatim>\<open>radius\<close>.
\<close>

definition draw_circle_ascii :: "int \<Rightarrow> bool \<Rightarrow> py_error + string" where
  "draw_circle_ascii r show_calculation = Inr (join_nl (draw_rows r))"

text \<open>
  Reading the returned string back as a grid: its rows are the pieces between
  newlines (Python's \<^verbatim>\<open>s.split("\n")\<close>), and the cell at \<open>(x, y)\<close> of the grid of
  radius \<open>r\<close> is character \<open>x + 2 r\<close> of row \<open>y + r\<close>, as rows run from \<open>y = - r\<close> and
  columns from \<open>x = - 2 r\<close>.
\<close>

fun split_nl :: "string \<Rightarrow> string list" where
  "split_nl [] = [[]]"
| "split_nl (c # cs) =
     (if c = CHR 0x0A then [] # split_nl cs
      else (case split_nl cs of [] \<Rightarrow> [[c]] | l # ls \<Rightarrow> (c # l) # ls))"

definition cell_at :: "string \<Rightarrow> int \<Rightarrow> int \<Rightarrow> int \<Rightarrow> char" where
  "cell_at s r x y = split_nl s ! nat (y + r) ! nat (x + 2 * r)"

subsection \<open>The input handling of main\<close>

text \<open>\<^verbatim>\<open>int(v)\<close> on a float truncates towards zero.\<close>

definition py_int :: "real \<Rightarrow> int" where
  "py_int v = (if 0 \<le> v then \<lfloor>v\<rfloor> else \<lceil>v\<rceil>)"

text \<open>
  The \<^verbatim>\<open>try\<close> block of \<^verbatim>\<open>main\<close>. The two lines typed at the prompts are the
  arguments \<open>input_radius\<close> and \<open>input_angle\<close>. Python's built-in \<^verbatim>\<open>float\<close> is not
  code of this repository and is the parameter \<open>py_float\<close>; when it raises, the
  exception leaves the block as any other. \<^verbatim>\<open>input(...) or "40"\<close> is \<^verbatim>\<open>"40"\<close> exactly
  when the line typed is empty. The result \<^term>\<open>Inl e\<close> is the exception that reaches
  the \<^verbatim>\<open>except\<close> clauses (which print it; \<^verbatim>\<open>main\<close> then returns \<^verbatim>\<open>True\<close>); the
  result \<^term>\<open>Inr (properties, ascii_circle)\<close> holds the two values computed when
  the block runs to its end.
\<close>

definition main ::
    "(string \<Rightarrow> py_error + real) \<Rightarrow> string \<Rightarrow> string \<Rightarrow>
       py_error + (CircleProperties \<times> string)" where
  "main py_float input_radius input_angle =
     (case py_float input_radius of
        Inl e \<Rightarrow> Inl e
      | Inr r \<Rightarrow>
          if r \<le> 0 then Inl (ValueError ''Radius must be positive'')
          else
            (case py_float (if input_angle = [] then ''40'' else input_angle) of
               Inl e \<Rightarrow> Inl e
             | Inr angle \<Rightarrow>
                 if angle \<le> 0 \<or> angle > 360
                 then Inl (ValueError ''Angle must be between 0 and 360 degrees'')
                 else
                   (case calculate_circle_properties r (Some angle) of
                      Inl e \<Rightarrow> Inl e
                    | Inr properties \<Rightarrow>
                        (case draw_circle_ascii (py_int r) True of
                           Inl e \<Rightarrow> Inl e
                         | Inr ascii_circle \<Rightarrow> Inr (properties, ascii_circle)))))"

text \<open>
  For the examples: \<^verbatim>\<open>float\<close> on the few literals they type. Every other string
  is taken as one that \<^verbatim>\<open>float\<close> refuses.
\<close>

definition float_lit :: "string \<Rightarrow> py_error + real" where
  "float_lit s =
     (if s = ''0'' then Inr 0
      else if s = ''-5'' then Inr (- 5)
      else if s = ''0.5'' then Inr (1 / 2)
      else if s = ''3'' then Inr 3
      else if s = ''40'' then Inr 40
      else if s = ''360'' then Inr 360
      else if s = ''361'' then Inr 361
      else Inl (ValueError ''could not convert string to float''))"

section \<open>Facts about the loops\<close>

text \<open>
  A loop that only appends to its accumulator computes a \<^const>\<open>map\<close> over the range it
  runs through.
\<close>

lemma foldl_snoc_concat: "foldl (\<lambda>acc x. acc @ f x) a xs = a @ concat (map f xs)"
  by (induction xs arbitrary: a) simp_all

lemma concat_if_singletons:
  "concat (map (\<lambda>x. if P x then [a] else [b]) xs) = map (\<lambda>x. if P x then a else b) xs"
  by (induction xs) simp_all

lemma draw_line_map:
  "draw_line r y = map (\<lambda>x. if is_on_circle r x y then CHR ''*'' else CHR '' '') [- 2 * r..2 * r]"
proof -
  have "draw_line r y =
      concat (map (\<lambda>x. if is_on_circle r x y then ''*'' else '' '') [- 2 * r..2 * r])"
    unfolding draw_line_def py_range_def by (simp add: foldl_snoc_concat)
  also have "\<dots> = map (\<lambda>x. if is_on_circle r x y then CHR ''*'' else CHR '' '') [- 2 * r..2 * r]"
    by (rule concat_if_singletons)
  finally show ?thesis .
qed

lemma draw_rows_map: "draw_rows r = map (draw_line r) [- r..r]"
proof -
  have "draw_rows r = concat (map (\<lambda>y. [draw_line r y]) [- r..r])"
    unfolding draw_rows_def py_range_def by (simp add: foldl_snoc_concat)
  then show ?thesis by simp
qed


lemma draw_rows_length: "length (draw_rows r) = nat (2 * r + 1)"
  by (simp add: draw_rows_map)



lemma draw_line_no_newline: "CHR 0x0A \<notin> set (draw_line r y)"
  by (auto simp add: draw_line_map)


subsection \<open>Rows of the joined string\<close>

lemma split_nl_no_newline: "CHR 0x0A \<notin> set l \<Longrightarrow> split_nl l = [l]"
  by (induction l) auto

lemma split_nl_append:
  "CHR 0x0A \<notin> set l \<Longrightarrow> split_nl (l @ CHR 0x0A # rest) = l # split_nl rest"
  by (induction l) (auto split: list.splits)

lemma split_join:
  "rows \<noteq> [] \<Longrightarrow> \<forall>row\<in>set rows. CHR 0x0A \<notin> set row \<Longrightarrow> split_nl (join_nl rows) = rows"
  by (induction rows rule: join_nl.induct) (simp_all add: split_nl_no_newline split_nl_append)

lemma split_join_draw_rows: "0 \<le> r \<Longrightarrow> split_nl (join_nl (draw_rows r)) = draw_rows r"
proof (rule split_join)
  assume "0 \<le> r"
  then have "length (draw_rows r) \<noteq> 0" by (simp add: draw_rows_length)
  then show "draw_rows r \<noteq> []" by simp
next
  show "\<forall>row\<in>set (draw_rows r). CHR 0x0A \<notin> set row"
    by (auto simp add: draw_rows_map draw_line_no_newline)
qed


subsection \<open>The membership test\<close>

text \<open>
  The test of a cell compares a square root with \<open>r \<plusminus> 1/2\<close>. Squaring both sides
  and clearing the denominator \<open>4\<close> turns it into a comparison of integers, by which
  concrete grids are computed.
\<close>

lemma sqrt_less_iff: "0 \<le> v \<Longrightarrow> sqrt v < c \<longleftrightarrow> 0 < c \<and> v < c\<^sup>2"
proof
  assume v: "0 \<le> v" and lt: "sqrt v < c"
  have c: "0 < c" using lt real_sqrt_ge_zero [OF v] by linarith
  have "(sqrt v)\<^sup>2 < c\<^sup>2"
    using lt real_sqrt_ge_zero [OF v] by (intro power_strict_mono) simp_all
  then have "v < c\<^sup>2" using v by simp
  then show "0 < c \<and> v < c\<^sup>2" using c by simp
next
  assume v: "0 \<le> v" and h: "0 < c \<and> v < c\<^sup>2"
  then show "sqrt v < c" by (simp add: real_less_lsqrt)
qed

lemma less_sqrt_iff: "0 \<le> v \<Longrightarrow> c < sqrt v \<longleftrightarrow> c < 0 \<or> c\<^sup>2 < v"
proof -
  assume v: "0 \<le> v"
  show ?thesis
  proof (cases "c < 0")
    case True
    then show ?thesis using real_sqrt_ge_zero [OF v] by linarith
  next
    case False
    then have c: "0 \<le> c" by simp
    have "c < sqrt v \<longleftrightarrow> sqrt (c\<^sup>2) < sqrt v" using c by simp
    also have "\<dots> \<longleftrightarrow> c\<^sup>2 < v" by (rule real_sqrt_less_iff)
    finally show ?thesis using False by simp
  qed
qed

lemma distance_sq:
  "distance x y = sqrt (real_of_int (x\<^sup>2 + 4 * y\<^sup>2) / 4)"
  unfolding distance_def scale_x_def by (simp add: power_divide add_divide_distrib)

lemma is_on_circle_int:
  "is_on_circle r x y \<longleftrightarrow>
     0 \<le> r \<and> x\<^sup>2 + 4 * y\<^sup>2 < 4 * r\<^sup>2 + 4 * r + 1 \<and> (r = 0 \<or> 4 * r\<^sup>2 - 4 * r + 1 < x\<^sup>2 + 4 * y\<^sup>2)"
proof -
  define n where "n = x\<^sup>2 + 4 * y\<^sup>2"
  define v where "v = real_of_int n / 4"
  have v0: "0 \<le> v" unfolding v_def n_def by simp
  have d: "distance x y = sqrt v" unfolding v_def n_def by (rule distance_sq)
  have up: "sqrt v < real_of_int r + 1 / 2 \<longleftrightarrow> 0 \<le> r \<and> n < 4 * r\<^sup>2 + 4 * r + 1"
  proof -
    have "sqrt v < real_of_int r + 1 / 2 \<longleftrightarrow>
        0 < real_of_int r + 1 / 2 \<and> v < (real_of_int r + 1 / 2)\<^sup>2"
      by (rule sqrt_less_iff [OF v0])
    also have "0 < real_of_int r + 1 / 2 \<longleftrightarrow> 0 \<le> r" by linarith
    also have "v < (real_of_int r + 1 / 2)\<^sup>2 \<longleftrightarrow> real_of_int n < real_of_int (4 * r\<^sup>2 + 4 * r + 1)"
      unfolding v_def by (simp add: power2_eq_square algebra_simps)
    also have "\<dots> \<longleftrightarrow> n < 4 * r\<^sup>2 + 4 * r + 1" by (rule of_int_less_iff)
    finally show ?thesis .
  qed
  have lo: "real_of_int r - 1 / 2 < sqrt v \<longleftrightarrow> r \<le> 0 \<or> 4 * r\<^sup>2 - 4 * r + 1 < n"
  proof -
    have "real_of_int r - 1 / 2 < sqrt v \<longleftrightarrow>
        real_of_int r - 1 / 2 < 0 \<or> (real_of_int r - 1 / 2)\<^sup>2 < v"
      by (rule less_sqrt_iff [OF v0])
    also have "real_of_int r - 1 / 2 < 0 \<longleftrightarrow> r \<le> 0" by linarith
    also have "(real_of_int r - 1 / 2)\<^sup>2 < v \<longleftrightarrow> real_of_int (4 * r\<^sup>2 - 4 * r + 1) < real_of_int n"
      unfolding v_def by (simp add: power2_eq_square algebra_simps)
    also have "\<dots> \<longleftrightarrow> 4 * r\<^sup>2 - 4 * r + 1 < n" by (rule of_int_less_iff)
    finally show ?thesis .
  qed
  have "is_on_circle r x y \<longleftrightarrow> real_of_int r - 1 / 2 < sqrt v \<and> sqrt v < real_of_int r + 1 / 2"
    unfolding is_on_circle_def d by (simp only: abs_less_iff) linarith
  then show ?thesis unfolding up lo n_def by auto
qed





lemma draw_rows_1: "draw_rows 1 = [''*****'', ''*   *'', ''*****'']"
  by (simp add: draw_rows_map draw_line_map is_on_circle_int upto.simps)

lemma draw_rows_3: "draw_rows 3 = [''   *******   '', '' **       ** '', ''**         **'',
  ''*           *'', ''**         **'', '' **       ** '',
  ''   *******   '']"
  by (simp add: draw_rows_map draw_line_map is_on_circle_int upto.simps)

subsection \<open>The engine and the checks of main\<close>

lemma calculate_returns:
  "calculate_circle_properties r a =
     Inr \<lparr>radius = r, angle_degrees = (case a of None \<Rightarrow> 360 | Some v \<Rightarrow> v),
          diameter = 2 * r, circumference = 2 * pi * r, area = pi * r\<^sup>2,
          sector_area = ((case a of None \<Rightarrow> 360 | Some v \<Rightarrow> v) / 360) * (pi * r\<^sup>2),
          arc_length = ((case a of None \<Rightarrow> 360 | Some v \<Rightarrow> v) / 360) * (2 * pi * r)\<rparr>"
  by (simp add: calculate_circle_properties_def Let_def)



lemma draw_circle_ascii_3:
  "draw_circle_ascii 3 sc = Inr (join_nl [''   *******   '', '' **       ** '', ''**         **'',
  ''*           *'', ''**         **'', '' **       ** '',
  ''   *******   ''])"
  by (simp only: draw_circle_ascii_def draw_rows_3)

lemma split_rows_3: "split_nl (join_nl (draw_rows 3)) = draw_rows 3"
  by (rule split_join_draw_rows) simp

section \<open>The claims\<close>

subsection \<open>C1: where invalid input is rejected\<close>




subsection \<open>C2: the shape and the cells of the grid\<close>



subsection \<open>C3: diameter, circumference and area\<close>



subsection \<open>C4: sector and arc as shares of the whole\<close>

text \<open>
  Claim C4. For every radius \<open>r > 0\<close> and every angle \<open>0 < a \<le> 360\<close> the record returned
  by \<^verbatim>\<open>calculate_circle_properties\<close> has \<open>sector_area / area = a / 360\<close> and
  \<open>arc_length / circumference = a / 360\<close>.
\<close>

theorem C4_sector_ratios:
  assumes "0 < r" and "0 < a" and "a \<le> 360"
  shows "\<exists>p. calculate_circle_properties r (Some a) = Inr p
     \<and> sector_area p / area p = a / 360 \<and> arc_length p / circumference p = a / 360"
  using assms by (simp add: calculate_returns)

text \<open>
  At \<open>r = 10\<close>, \<open>a = 90\<close> both shares are a quarter.
\<close>

theorem C4_witness:
  "0 < (10::real) \<and> 0 < (90::real) \<and> (90::real) \<le> 360
   \<and> (\<exists>p. calculate_circle_properties 10 (Some 90) = Inr p
     \<and> sector_area p / area p = 1 / 4 \<and> arc_length p / circumference p = 1 / 4)"
  using C4_sector_ratios [of 10 90] by simp

subsection \<open>C5: the full angle\<close>



subsection \<open>C6: the grid of radius 3\<close>

text \<open>
  Claim C6 (as amended). Rasterizing radius \<open>3\<close> gives \<open>7\<close> rows of \<open>13\<close> characters each,
  and the middle row (\<open>y = 0\<close>) has \<^verbatim>\<open>'*'\<close> exactly in its first and last column, that is at
  \<open>x = -6\<close> and \<open>x = 6\<close>, with eleven blanks between them. The whole grid is given as well.
\<close>

theorem C6_radius_3:
  "\<exists>s. draw_circle_ascii 3 show_calculation = Inr s
     \<and> map length (split_nl s) = replicate 7 13
     \<and> split_nl s ! 3 = ''*'' @ replicate 11 (CHR '' '') @ ''*''
     \<and> split_nl s =
         [''   *******   '',
          '' **       ** '',
          ''**         **'',
          ''*           *'',
          ''**         **'',
          '' **       ** '',
          ''   *******   '']"
  by (simp add: draw_circle_ascii_def split_rows_3) (simp add: draw_rows_3 numeral_eq_Suc)

text \<open>
  Claim C6 as stated fails: the middle row is blank at \<open>x = 5\<close> and at \<open>x = -5\<close>, where
  the distance \<open>2.5\<close> differs from the radius by exactly \<open>0.5\<close>, which is not \<open>< 0.5\<close>. The
  columns \<open>x = 7\<close> and \<open>x = -7\<close> are outside the \<open>13\<close> columns \<open>-6 \<dots> 6\<close> of the row.
\<close>

theorem C6_counterexample:
  "map_sum id (\<lambda>s. (split_nl s ! 3, cell_at s 3 5 0, cell_at s 3 (- 5) 0))
     (draw_circle_ascii 3 False) = Inr (''*           *'', CHR '' '', CHR '' '')"
  by (simp add: draw_circle_ascii_def cell_at_def split_rows_3) (simp add: draw_rows_3)

subsection \<open>C7: the default angle\<close>

text \<open>
  Claim C7 (as amended). A call of \<^verbatim>\<open>calculate_circle_properties\<close> that leaves the angle
  out is the call with angle \<open>360\<close>. At the console, an empty line at the angle prompt
  is read as \<^verbatim>\<open>"40"\<close>: \<^verbatim>\<open>main\<close> then behaves as if \<^verbatim>\<open>40\<close> had been typed, as its prompt
  \<^verbatim>\<open>(default = 40)\<close> announces.
\<close>

theorem C7_defaults:
  "calculate_circle_properties r None = calculate_circle_properties r (Some 360)
   \<and> main py_float input_radius '''' = main py_float input_radius ''40''"
  by (simp add: calculate_returns main_def)

text \<open>
  Claim C7 as stated fails: with radius \<^verbatim>\<open>3\<close> and an empty line for the angle, the
  record computed by \<^verbatim>\<open>main\<close> has \<open>angle_degrees = 40\<close>, not \<open>360\<close>.
\<close>

theorem C7_counterexample:
  "map_sum id (angle_degrees \<circ> fst) (main float_lit ''3'' '''') = Inr 40
   \<and> map_sum id (angle_degrees \<circ> fst) (main float_lit ''3'' '''') \<noteq> Inr 360"
  by (simp add: main_def float_lit_def calculate_returns draw_circle_ascii_def)

subsection \<open>C8: the rasterizer validates nothing\<close>




subsection \<open>C9: mirror symmetry\<close>



subsection \<open>C10: every integer radius is accepted\<close>



end
